theory Spec2Isabelle
  imports Main "HOL-Library.Sublist"
begin

section \<open>A shallow embedding of \<^verbatim>\<open>bot-template/app/__main__.py\<close>\<close>

text \<open>
  The program is one Python module: it reads four environment variables, builds an aiogram
  \<^verbatim>\<open>Bot\<close> and \<^verbatim>\<open>Dispatcher\<close>, registers one message handler, and runs \<^verbatim>\<open>main()\<close>,
  which builds an aiohttp application, registers the webhook with the platform when a URL is
  configured, starts a TCP site and waits forever.

  Python strings are modelled as \<^typ>\<open>string\<close> (the UTF-8 bytes of the text), \<^verbatim>\<open>None\<close> as
  \<^const>\<open>None\<close>, an exception as a value of \<open>py_exception\<close>. The calls into aiogram, aiohttp
  and asyncio are not part of the repository: each of them is recorded as an \<open>event\<close> of the
  run, and whether it raises is read from a \<open>world\<close>, a parameter of the model. So are the
  two things the Python runtime brings to \<^verbatim>\<open>int\<close>: Unicode's blanks and decimal digits, and
  the limit on the digits of a literal.
\<close>

subsection \<open>Exceptions and the environment\<close>

text \<open>
  \<^verbatim>\<open>ValueError\<close> is the one exception the module's own code raises (through \<^verbatim>\<open>int\<close>);
  \<open>Raised n\<close> is an exception named \<open>n\<close> that comes out of a library call or that ends the
  wait of line 61.
\<close>

datatype py_exception =
    ValueError
  | Raised string

type_synonym environ = "string \<rightharpoonup> string"

text \<open>\<^verbatim>\<open>os.getenv(key)\<close> and \<^verbatim>\<open>os.getenv(key, default)\<close>.\<close>

definition getenv :: "environ \<Rightarrow> string \<Rightarrow> string option" where
  "getenv env key = env key"

definition getenv_default :: "environ \<Rightarrow> string \<Rightarrow> string \<Rightarrow> string" where
  "getenv_default env key dflt = (case env key of None \<Rightarrow> dflt | Some v \<Rightarrow> v)"

subsection \<open>The libraries and the runtime, as far as the program calls them\<close>

text \<open>
  A call the program sends to the chat platform through aiogram.
\<close>

datatype outbound = SendMessage int string

text \<open>
  What the library calls do is not decided by this repository. A \<open>world\<close> says, for each of
  them, whether it returns (\<^const>\<open>None\<close>) or raises: the constructor \<^verbatim>\<open>Bot(token=...)\<close>,
  \<^verbatim>\<open>bot.set_webhook(url=..., drop_pending_updates=...)\<close>, \<^verbatim>\<open>runner.setup()\<close>,
  \<^verbatim>\<open>site.start()\<close> for a host and a port, \<^verbatim>\<open>bot.session.close()\<close> and
  \<^verbatim>\<open>message.answer(...)\<close>. \<^verbatim>\<open>await asyncio.Future()\<close> never returns: \<open>future_wait\<close> is
  \<^const>\<open>None\<close> when the wait goes on for ever, and the exception thrown into it when the
  process is interrupted.

  The world also holds what the Python runtime brings to \<^verbatim>\<open>int\<close>. For a text with a
  character outside ASCII, \<open>unicode_to_ascii\<close> is the runtime's translation of the text
  before it is parsed: every Unicode blank becomes a space, every Unicode decimal digit the
  ASCII digit of its value, ASCII characters stay, and there is no translation
  (\<^const>\<open>None\<close>) when some character is none of these. \<open>int_max_str_digits\<close> is the
  runtime's limit on the number of digits of an integer literal (4300 by default since
  Python 3.11), 0 when there is no limit.
\<close>

record world =
  Bot_init :: "string option \<Rightarrow> py_exception option"
  set_webhook :: "string \<Rightarrow> bool \<Rightarrow> py_exception option"
  runner_setup :: "py_exception option"
  site_start :: "string \<Rightarrow> int \<Rightarrow> py_exception option"
  future_wait :: "py_exception option"
  session_close :: "py_exception option"
  message_answer :: "outbound \<Rightarrow> py_exception option"
  unicode_to_ascii :: "string \<Rightarrow> string option"
  int_max_str_digits :: nat

subsection \<open>The configuration (lines 8 to 12)\<close>

text \<open>
  Python's \<^verbatim>\<open>int(s)\<close> on a string, base 10. A text that is all ASCII is parsed as it is,
  any other text after the runtime's translation. Then blanks around the literal are skipped
  (the six ASCII blanks), one sign may lead, and decimal digits follow, with single
  underscores allowed between two digits. Anything else raises \<^verbatim>\<open>ValueError\<close>, here
  \<^const>\<open>None\<close>; so does a literal of more than 640 digits that exceeds the runtime's limit.
\<close>

definition is_ascii :: "string \<Rightarrow> bool" where
  "is_ascii s = list_all (\<lambda>c. (of_char c :: nat) < 128) s"

definition ascii_text :: "world \<Rightarrow> string \<Rightarrow> string option" where
  "ascii_text w s = (if is_ascii s then Some s else unicode_to_ascii w s)"

definition py_isspace :: "char \<Rightarrow> bool" where
  "py_isspace c = (c \<in> {CHR '' '', CHR 0x09, CHR 0x0A, CHR 0x0B, CHR 0x0C, CHR 0x0D})"

definition py_strip :: "string \<Rightarrow> string" where
  "py_strip s = rev (dropWhile py_isspace (rev (dropWhile py_isspace s)))"

definition digit_value :: "char \<Rightarrow> nat option" where
  "digit_value c =
     (let n = (of_char c :: nat) in if 48 \<le> n \<and> n \<le> 57 then Some (n - 48) else None)"

text \<open>
  The digit scan: \<open>acc\<close> is the value read so far, \<open>prev_digit\<close> tells whether the previous
  character was a digit (false at the start and after an underscore).
\<close>

fun scan_digits :: "nat \<Rightarrow> bool \<Rightarrow> string \<Rightarrow> nat option" where
  "scan_digits acc prev_digit [] = (if prev_digit then Some acc else None)"
| "scan_digits acc prev_digit (c # cs) =
     (if c = CHR ''_'' then (if prev_digit then scan_digits acc False cs else None)
      else (case digit_value c of
              None \<Rightarrow> None
            | Some d \<Rightarrow> scan_digits (acc * 10 + d) True cs))"

text \<open>
  The limit on the digits of a literal: the digits are counted without the underscores, and
  the runtime looks at its limit only for more than 640 of them.
\<close>

definition over_digit_limit :: "world \<Rightarrow> string \<Rightarrow> bool" where
  "over_digit_limit w b =
     (let digits = length (filter (\<lambda>c. c \<noteq> CHR ''_'') b)
      in 640 < digits \<and> 0 < int_max_str_digits w \<and> int_max_str_digits w < digits)"

definition parse_digits :: "world \<Rightarrow> string \<Rightarrow> nat option" where
  "parse_digits w b =
     (case scan_digits 0 False b of
        None \<Rightarrow> None
      | Some n \<Rightarrow> if over_digit_limit w b then None else Some n)"

definition py_int :: "world \<Rightarrow> string \<Rightarrow> int option" where
  "py_int w s =
     (case ascii_text w s of
        None \<Rightarrow> None
      | Some a \<Rightarrow>
          (case py_strip a of
             [] \<Rightarrow> None
           | c # cs \<Rightarrow>
               if c = CHR ''-'' then map_option (\<lambda>n. - int n) (parse_digits w cs)
               else if c = CHR ''+'' then map_option int (parse_digits w cs)
               else map_option int (parse_digits w (c # cs))))"

text \<open>The module's globals after lines 9 to 12.\<close>

record config =
  BOT_TOKEN :: "string option"
  BOT_PORT :: int
  WEBHOOK_URL :: "string option"
  BOT_NAME :: string

definition read_config :: "world \<Rightarrow> environ \<Rightarrow> py_exception + config" where
  "read_config w env =
     (case py_int w (getenv_default env ''BOT_PORT'' ''8080'') of
        None \<Rightarrow> Inl ValueError
      | Some port \<Rightarrow>
          Inr \<lparr> BOT_TOKEN = getenv env ''BOT_TOKEN'',
                BOT_PORT = port,
                WEBHOOK_URL = getenv env ''WEBHOOK_URL'',
                BOT_NAME = getenv_default env ''BOT_NAME'' ''bot'' \<rparr>)"

text \<open>
  What a function of the module leaves behind: the value it returns or the exception it
  raises, the module's globals as it leaves them, and the calls it sent to the platform.
\<close>

record 'a py_result =
  returned :: "py_exception + 'a"
  globals_after :: config
  sent :: "outbound list"

subsection \<open>The echo handler (lines 22 to 25)\<close>

text \<open>
  The part of an aiogram \<^verbatim>\<open>Message\<close> the program can see: the chat it came from, its
  identifier, the sender, and the text (\<open>msg_text\<close>), which is \<^verbatim>\<open>None\<close> for a message
  without text (a photo, a sticker).
\<close>

record message =
  chat_id :: int
  message_id :: int
  from_user :: "string option"
  msg_text :: "string option"

text \<open>What an f-string writes for a value of type \<^verbatim>\<open>Optional[str]\<close>.\<close>

definition py_format :: "string option \<Rightarrow> string" where
  "py_format v = (case v of None \<Rightarrow> ''None'' | Some s \<Rightarrow> s)"

text \<open>The robot face U+1F916 that opens the reply, in UTF-8.\<close>

definition robot :: string where
  "robot = [CHR 0xF0, CHR 0x9F, CHR 0xA4, CHR 0x96]"

text \<open>The f-string of line 25.\<close>

definition reply_text :: "config \<Rightarrow> message \<Rightarrow> string" where
  "reply_text g m =
     robot @ '' Hello 111 from '' @ BOT_NAME g @ ''! You said: '' @ py_format (msg_text m)"

text \<open>
  \<^verbatim>\<open>message.answer(text)\<close> is aiogram's send call to the chat of the message; the handler
  awaits it and returns \<^verbatim>\<open>None\<close>, or raises what the call raised.
\<close>

definition echo_handler :: "world \<Rightarrow> config \<Rightarrow> message \<Rightarrow> unit py_result" where
  "echo_handler w g m =
     (let call = SendMessage (chat_id m) (reply_text g m)
      in \<lparr> returned = (case message_answer w call of None \<Rightarrow> Inr () | Some e \<Rightarrow> Inl e),
           globals_after = g,
           sent = [call] \<rparr>)"

fun outbound_text :: "outbound \<Rightarrow> string" where
  "outbound_text (SendMessage c t) = t"

text \<open>
  Following the specification's words: the fixed greeting template containing the configured
  bot name, to which the input text is appended.
\<close>

definition greeting :: "string \<Rightarrow> string" where
  "greeting n = robot @ '' Hello 111 from '' @ n @ ''! You said: ''"

subsection \<open>The health check (lines 27 to 29)\<close>

record request =
  req_method :: string
  req_path :: string
  req_body :: string

record response =
  status :: int
  body :: string

text \<open>\<^verbatim>\<open>web.Response(text=...)\<close>: aiohttp's default status is 200.\<close>

definition web_Response :: "string \<Rightarrow> response" where
  "web_Response t = \<lparr> status = 200, body = t \<rparr>"

definition health_check :: "world \<Rightarrow> config \<Rightarrow> request \<Rightarrow> response py_result" where
  "health_check w g request =
     \<lparr> returned = Inr (web_Response ''OK''), globals_after = g, sent = [] \<rparr>"

subsection \<open>The run of the process (lines 14 to 20 and 31 to 66)\<close>

datatype log_record =
    Starting_bot string
  | Webhook_set_to string
  | Bot_started string int

datatype handler_name = Health_check | Webhook_handler

text \<open>
  The calls of the run that touch something outside the module, one constructor for each,
  in the order of the source: line 15, 19, 20, 22, the \<^verbatim>\<open>logger.info\<close> lines, 36, 39, 42,
  43, 44, 48, 52 and 53, 54 and 55, 61, 63.
\<close>

datatype event =
    Logging_basicConfig
  | Bot_new "string option"
  | Dispatcher_new
  | Register_message_handler
  | Log_info log_record
  | Application_new
  | Add_get string handler_name
  | Request_handler_new
  | Register_webhook_route string
  | Setup_application
  | Set_webhook string bool
  | Runner_setup
  | Site_start string int
  | Wait_forever
  | Session_close

text \<open>
  Straight-line code is a list of calls, each with what the world answers. The calls are
  made in order up to the first one that raises; that one is still made.
\<close>

fun run_calls :: "(event \<times> py_exception option) list \<Rightarrow> event list \<times> py_exception option" where
  "run_calls [] = ([], None)"
| "run_calls ((ev, None) # rest) = (let (tr, r) = run_calls rest in (ev # tr, r))"
| "run_calls ((ev, Some e) # rest) = ([ev], Some e)"

text \<open>Lines 14 to 25, after the configuration has been read.\<close>

definition module_calls :: "config \<Rightarrow> world \<Rightarrow> (event \<times> py_exception option) list" where
  "module_calls g w =
     [(Logging_basicConfig, None),
      (Bot_new (BOT_TOKEN g), Bot_init w (BOT_TOKEN g)),
      (Dispatcher_new, None),
      (Register_message_handler, None)]"

text \<open>Lines 33 to 44 of \<^verbatim>\<open>main\<close>: the application, its two routes, aiogram's hooks.\<close>

definition setup_calls :: "config \<Rightarrow> (event \<times> py_exception option) list" where
  "setup_calls g =
     [(Log_info (Starting_bot (BOT_NAME g)), None),
      (Application_new, None),
      (Add_get ''/health'' Health_check, None),
      (Request_handler_new, None),
      (Register_webhook_route ''/webhook'', None),
      (Setup_application, None)]"

text \<open>
  Lines 47 to 49. The test \<^verbatim>\<open>if WEBHOOK_URL:\<close> is Python's truth value of an
  \<^verbatim>\<open>Optional[str]\<close>: \<^verbatim>\<open>None\<close> and the empty string are false.
\<close>

definition webhook_calls :: "config \<Rightarrow> world \<Rightarrow> (event \<times> py_exception option) list" where
  "webhook_calls g w =
     (case WEBHOOK_URL g of
        None \<Rightarrow> []
      | Some url \<Rightarrow>
          if url = [] then []
          else [(Set_webhook url True, set_webhook w url True),
                (Log_info (Webhook_set_to url), None)])"

text \<open>Lines 52 to 57.\<close>

definition server_calls :: "config \<Rightarrow> world \<Rightarrow> (event \<times> py_exception option) list" where
  "server_calls g w =
     [(Runner_setup, runner_setup w),
      (Site_start ''0.0.0.0'' (BOT_PORT g), site_start w ''0.0.0.0'' (BOT_PORT g)),
      (Log_info (Bot_started (BOT_NAME g) (BOT_PORT g)), None)]"

definition main_calls :: "config \<Rightarrow> world \<Rightarrow> (event \<times> py_exception option) list" where
  "main_calls g w = setup_calls g @ webhook_calls g w @ server_calls g w"

text \<open>
  How the process stands at the end of the run: still waiting at line 61, with the server
  listening, or ended by an exception nobody caught.
\<close>

datatype outcome = Running | Uncaught py_exception

text \<open>
  \<^verbatim>\<open>main\<close>: the calls of lines 33 to 57, then the \<^verbatim>\<open>try\<close> of lines 60 to 63. Only the wait
  of line 61 is inside the \<^verbatim>\<open>try\<close>; its \<^verbatim>\<open>finally\<close> closes the session, and an exception
  raised by the close replaces the one that ended the wait.
\<close>

definition main :: "config \<Rightarrow> world \<Rightarrow> event list \<times> outcome" where
  "main g w =
     (case run_calls (main_calls g w) of
        (tr, Some e) \<Rightarrow> (tr, Uncaught e)
      | (tr, None) \<Rightarrow>
          (case future_wait w of
             None \<Rightarrow> (tr @ [Wait_forever], Running)
           | Some e \<Rightarrow>
               (tr @ [Wait_forever, Session_close],
                Uncaught (case session_close w of None \<Rightarrow> e | Some e' \<Rightarrow> e'))))"

text \<open>
  The whole module, run as the program: the configuration of lines 9 to 12, then lines 14
  to 25 and \<^verbatim>\<open>asyncio.run(main())\<close>. An exception at any point ends the process there.
\<close>

definition module_body :: "config \<Rightarrow> world \<Rightarrow> event list \<times> outcome" where
  "module_body g w =
     (case run_calls (module_calls g w) of
        (tr, Some e) \<Rightarrow> (tr, Uncaught e)
      | (tr, None) \<Rightarrow> (let (tr', out) = main g w in (tr @ tr', out)))"

definition program :: "environ \<Rightarrow> world \<Rightarrow> event list \<times> outcome" where
  "program env w =
     (case read_config w env of
        Inl e \<Rightarrow> ([], Uncaught e)
      | Inr g \<Rightarrow> module_body g w)"

text \<open>
  The exit status of the process, when it has one: Python ends with status 1 on an uncaught
  exception.
\<close>

fun exit_status :: "outcome \<Rightarrow> int option" where
  "exit_status Running = None"
| "exit_status (Uncaught e) = Some 1"

subsection \<open>Routing\<close>

text \<open>
  The routes the run has registered: \<^verbatim>\<open>add_get\<close> adds the handler for \<^verbatim>\<open>HEAD\<close> and
  \<^verbatim>\<open>GET\<close>, aiogram's \<^verbatim>\<open>register\<close> adds its own handler for \<^verbatim>\<open>POST\<close>. A request goes to
  the first route with its method and path.
\<close>

record route =
  route_method :: string
  route_path :: string
  route_handler :: handler_name

fun routes_of_event :: "event \<Rightarrow> route list" where
  "routes_of_event (Add_get p h) =
     [\<lparr> route_method = ''HEAD'', route_path = p, route_handler = h \<rparr>,
      \<lparr> route_method = ''GET'', route_path = p, route_handler = h \<rparr>]"
| "routes_of_event (Register_webhook_route p) =
     [\<lparr> route_method = ''POST'', route_path = p, route_handler = Webhook_handler \<rparr>]"
| "routes_of_event _ = []"

definition routes_of :: "event list \<Rightarrow> route list" where
  "routes_of tr = concat (map routes_of_event tr)"

fun resolve :: "route list \<Rightarrow> request \<Rightarrow> handler_name option" where
  "resolve [] rq = None"
| "resolve (r # rs) rq =
     (if route_method r = req_method rq \<and> route_path r = req_path rq
      then Some (route_handler r) else resolve rs rq)"

text \<open>
  Serving a request while the process is running: the answer of \<open>health_check\<close> when the
  request resolves to it, \<^const>\<open>None\<close> when it is answered outside the module (by aiogram's
  webhook handler, or by aiohttp when no route matches).
\<close>

definition serve :: "world \<Rightarrow> config \<Rightarrow> event list \<Rightarrow> request \<Rightarrow> response py_result option" where
  "serve w g tr rq =
     (case resolve (routes_of tr) rq of
        Some Health_check \<Rightarrow> Some (health_check w g rq)
      | Some Webhook_handler \<Rightarrow> None
      | None \<Rightarrow> None)"

text \<open>Whether event \<open>a\<close> occurs in a trace strictly before an occurrence of event \<open>b\<close>.\<close>

fun precedes :: "event \<Rightarrow> event \<Rightarrow> event list \<Rightarrow> bool" where
  "precedes a b [] = False"
| "precedes a b (x # xs) = ((x = a \<and> b \<in> set xs) \<or> precedes a b xs)"

subsection \<open>A valid decimal integer, in the specification's words\<close>

text \<open>
  Following the specification's words, a string is a valid decimal integer when, its
  Unicode blanks and decimal digits read as their ASCII counterparts, blanks around it set
  aside and one leading sign removed, what remains is not empty, consists of decimal digits
  and underscores only, starts and ends with a digit, and has no two underscores in a row.
\<close>

definition decimal_digit :: "char \<Rightarrow> bool" where
  "decimal_digit c = (c \<in> set ''0123456789'')"

definition literal_body :: "string \<Rightarrow> string" where
  "literal_body a =
     (case py_strip a of
        [] \<Rightarrow> []
      | c # cs \<Rightarrow> if c = CHR ''-'' \<or> c = CHR ''+'' then cs else c # cs)"

definition valid_decimal_integer :: "world \<Rightarrow> string \<Rightarrow> bool" where
  "valid_decimal_integer w s =
     (case ascii_text w s of
        None \<Rightarrow> False
      | Some a \<Rightarrow>
          (let b = literal_body a
           in b \<noteq> [] \<and> list_all (\<lambda>c. decimal_digit c \<or> c = CHR ''_'') b
              \<and> decimal_digit (hd b) \<and> decimal_digit (last b) \<and> \<not> sublist ''__'' b))"

subsection \<open>Concrete runs\<close>

text \<open>
  An environment with a token and a webhook URL, one without a token, and worlds to run
  them in: one where every call returns and the client refuses a missing token, one where the
  platform refuses the webhook, one where the port is taken, one where the wait of line 61 is
  interrupted. The runtime of these worlds has the default limit of 4300 digits, and its
  translation knows, beyond ASCII, the no-break space U+00A0, the Arabic-Indic digits U+0660
  to U+0669 and the fullwidth digits U+FF10 to U+FF19 (in UTF-8, the bytes C2 A0, D9 A0 to
  D9 A9, and EF BC 90 to EF BC 99).
\<close>

fun fullwidth_to_ascii :: "string \<Rightarrow> string option" where
  "fullwidth_to_ascii [] = Some []"
| "fullwidth_to_ascii (c # cs) =
     (if (of_char c :: nat) < 127 then map_option ((#) c) (fullwidth_to_ascii cs)
      else if c = CHR 0xC2 then
        (case cs of
           d # rest \<Rightarrow>
             if d = CHR 0xA0 then map_option ((#) CHR '' '') (fullwidth_to_ascii rest) else None
         | [] \<Rightarrow> None)
      else if c = CHR 0xD9 then
        (case cs of
           d # rest \<Rightarrow>
             if 0xA0 \<le> (of_char d :: nat) \<and> (of_char d :: nat) \<le> 0xA9
             then map_option ((#) (''0123456789'' ! (of_char d - 0xA0))) (fullwidth_to_ascii rest)
             else None
         | [] \<Rightarrow> None)
      else if c = CHR 0xEF then
        (case cs of
           d # e # rest \<Rightarrow>
             if d = CHR 0xBC \<and> 0x90 \<le> (of_char e :: nat) \<and> (of_char e :: nat) \<le> 0x99
             then map_option ((#) (''0123456789'' ! (of_char e - 0x90))) (fullwidth_to_ascii rest)
             else None
         | _ \<Rightarrow> None)
      else None)"

definition example_env :: environ where
  "example_env =
     [''BOT_TOKEN'' \<mapsto> ''123456:abcdef'', ''WEBHOOK_URL'' \<mapsto> ''https://example.org/webhook'']"

definition tokenless_env :: environ where
  "tokenless_env = [''BOT_NAME'' \<mapsto> ''echo'']"

definition quiet_world :: world where
  "quiet_world =
     \<lparr> Bot_init = (\<lambda>t. case t of None \<Rightarrow> Some (Raised ''TokenValidationError'') | Some _ \<Rightarrow> None),
       set_webhook = (\<lambda>url drop. None),
       runner_setup = None,
       site_start = (\<lambda>host port. None),
       future_wait = None,
       session_close = None,
       message_answer = (\<lambda>call. None),
       unicode_to_ascii = fullwidth_to_ascii,
       int_max_str_digits = 4300 \<rparr>"

definition refusing_world :: world where
  "refusing_world = quiet_world \<lparr> set_webhook := (\<lambda>url drop. Some (Raised ''TelegramUnauthorizedError'')) \<rparr>"

definition busy_port_world :: world where
  "busy_port_world = quiet_world \<lparr> site_start := (\<lambda>host port. Some (Raised ''OSError'')) \<rparr>"

definition bad_port_env :: environ where
  "bad_port_env = [''BOT_TOKEN'' \<mapsto> ''123456:abcdef'', ''BOT_PORT'' \<mapsto> ''80a'']"

text \<open>A port written as a no-break space and the fullwidth digits 8090.\<close>

definition fullwidth_port_env :: environ where
  "fullwidth_port_env =
     [''BOT_TOKEN'' \<mapsto> ''123456:abcdef'',
      ''BOT_PORT'' \<mapsto> [CHR 0xC2, CHR 0xA0, CHR 0xEF, CHR 0xBC, CHR 0x98, CHR 0xEF, CHR 0xBC, CHR 0x90,
                      CHR 0xEF, CHR 0xBC, CHR 0x99, CHR 0xEF, CHR 0xBC, CHR 0x90]]"

definition interrupted_world :: world where
  "interrupted_world = quiet_world \<lparr> future_wait := Some (Raised ''CancelledError'') \<rparr>"

definition example_config :: config where
  "example_config =
     \<lparr> BOT_TOKEN = Some ''123456:abcdef'', BOT_PORT = 8080,
       WEBHOOK_URL = Some ''https://example.org/webhook'', BOT_NAME = ''bot'' \<rparr>"

definition other_config :: config where
  "other_config = \<lparr> BOT_TOKEN = None, BOT_PORT = 9090, WEBHOOK_URL = None, BOT_NAME = ''bot'' \<rparr>"

definition hello_message :: message where
  "hello_message = \<lparr> chat_id = 42, message_id = 1, from_user = Some ''alice'', msg_text = Some ''hello'' \<rparr>"

definition other_hello_message :: message where
  "other_hello_message = \<lparr> chat_id = 7, message_id = 99, from_user = None, msg_text = Some ''hello'' \<rparr>"

definition photo_message :: message where
  "photo_message = \<lparr> chat_id = 42, message_id = 2, from_user = Some ''alice'', msg_text = None \<rparr>"

definition empty_message :: message where
  "empty_message = \<lparr> chat_id = 42, message_id = 3, from_user = Some ''alice'', msg_text = Some [] \<rparr>"

definition health_request :: request where
  "health_request = \<lparr> req_method = ''GET'', req_path = ''/health'', req_body = [] \<rparr>"

section \<open>Properties\<close>

subsection \<open>How a list of calls runs\<close>

lemma run_calls_append:
  "run_calls (xs @ ys) =
     (case run_calls xs of
        (tr, Some e) \<Rightarrow> (tr, Some e)
      | (tr, None) \<Rightarrow> (case run_calls ys of (tr', r) \<Rightarrow> (tr @ tr', r)))"
  by (induction xs rule: run_calls.induct) (auto split: prod.splits option.splits)

lemma run_module_calls:
  "run_calls (module_calls g w) =
     (case Bot_init w (BOT_TOKEN g) of
        None \<Rightarrow> ([Logging_basicConfig, Bot_new (BOT_TOKEN g), Dispatcher_new,
                  Register_message_handler], None)
      | Some e \<Rightarrow> ([Logging_basicConfig, Bot_new (BOT_TOKEN g)], Some e))"
  by (simp add: module_calls_def split: option.split)

lemma run_setup_calls:
  "run_calls (setup_calls g) =
     ([Log_info (Starting_bot (BOT_NAME g)), Application_new, Add_get ''/health'' Health_check,
       Request_handler_new, Register_webhook_route ''/webhook'', Setup_application], None)"
  by (simp add: setup_calls_def)

lemma run_webhook_calls:
  "run_calls (webhook_calls g w) =
     (case WEBHOOK_URL g of
        None \<Rightarrow> ([], None)
      | Some url \<Rightarrow>
          if url = [] then ([], None)
          else (case set_webhook w url True of
                  None \<Rightarrow> ([Set_webhook url True, Log_info (Webhook_set_to url)], None)
                | Some e \<Rightarrow> ([Set_webhook url True], Some e)))"
  by (simp add: webhook_calls_def split: option.split)

lemma run_server_calls:
  "run_calls (server_calls g w) =
     (case runner_setup w of
        Some e \<Rightarrow> ([Runner_setup], Some e)
      | None \<Rightarrow>
         (case site_start w ''0.0.0.0'' (BOT_PORT g) of
            Some e \<Rightarrow> ([Runner_setup, Site_start ''0.0.0.0'' (BOT_PORT g)], Some e)
          | None \<Rightarrow> ([Runner_setup, Site_start ''0.0.0.0'' (BOT_PORT g),
                      Log_info (Bot_started (BOT_NAME g) (BOT_PORT g))], None)))"
  by (simp add: server_calls_def split: option.split)

lemmas run_unfold = module_body_def main_def main_calls_def run_calls_append
  run_module_calls run_setup_calls run_webhook_calls run_server_calls

subsection \<open>Reading the configuration\<close>

lemma py_int_8080: "py_int w ''8080'' = Some 8080"
  by (simp add: py_int_def ascii_text_def is_ascii_def parse_digits_def over_digit_limit_def
      py_strip_def py_isspace_def digit_value_def)

lemma read_config_fields:
  assumes "read_config w env = Inr g"
  shows "BOT_TOKEN g = env ''BOT_TOKEN''"
    and "WEBHOOK_URL g = env ''WEBHOOK_URL''"
    and "BOT_NAME g = (case env ''BOT_NAME'' of None \<Rightarrow> ''bot'' | Some n \<Rightarrow> n)"
    and "py_int w (case env ''BOT_PORT'' of None \<Rightarrow> ''8080'' | Some v \<Rightarrow> v) = Some (BOT_PORT g)"
  using assms
  by (auto simp add: read_config_def getenv_def getenv_default_def split: option.splits)

lemma read_example_env: "read_config w example_env = Inr example_config"
  by (simp add: read_config_def example_env_def example_config_def getenv_def
      getenv_default_def py_int_8080)

lemma read_tokenless_env:
  "read_config w tokenless_env =
     Inr \<lparr> BOT_TOKEN = None, BOT_PORT = 8080, WEBHOOK_URL = None, BOT_NAME = ''echo'' \<rparr>"
  by (simp add: read_config_def tokenless_env_def getenv_def getenv_default_def py_int_8080)

subsection \<open>What \<open>py_int\<close> accepts\<close>

lemma char_of_digit_codes:
  "char_of (48::nat) = CHR ''0''" "char_of (49::nat) = CHR ''1''" "char_of (50::nat) = CHR ''2''"
  "char_of (51::nat) = CHR ''3''" "char_of (52::nat) = CHR ''4''" "char_of (53::nat) = CHR ''5''"
  "char_of (54::nat) = CHR ''6''" "char_of (55::nat) = CHR ''7''" "char_of (56::nat) = CHR ''8''"
  "char_of (57::nat) = CHR ''9''"
  by code_simp+

lemma digit_code_iff:
  "(48 \<le> (of_char c :: nat) \<and> (of_char c :: nat) \<le> 57) \<longleftrightarrow> decimal_digit c"
proof
  assume "48 \<le> (of_char c :: nat) \<and> (of_char c :: nat) \<le> 57"
  then have "(of_char c :: nat) \<in> {48, 49, 50, 51, 52, 53, 54, 55, 56, 57}"
    by simp arith
  then have "char_of (of_char c :: nat)
      \<in> (char_of ` {48, 49, 50, 51, 52, 53, 54, 55, 56, 57 :: nat} :: char set)"
    by (rule imageI)
  then show "decimal_digit c"
    by (simp add: char_of_digit_codes decimal_digit_def)
next
  assume "decimal_digit c"
  then show "48 \<le> (of_char c :: nat) \<and> (of_char c :: nat) \<le> 57"
    by (auto simp add: decimal_digit_def)
qed

lemma digit_value_None_iff: "digit_value c = None \<longleftrightarrow> \<not> decimal_digit c"
  using digit_code_iff [of c] by (auto simp add: digit_value_def Let_def)

lemma underscore_no_digit: "\<not> decimal_digit CHR ''_''"
  by (simp add: decimal_digit_def)

text \<open>
  The scan succeeds exactly on the strings of digits and single underscores that end with a
  digit and, unless a digit came just before, start with one.
\<close>

lemma scan_digits_Some_iff:
  "scan_digits acc p b \<noteq> None \<longleftrightarrow>
     list_all (\<lambda>c. decimal_digit c \<or> c = CHR ''_'') b \<and> \<not> sublist ''__'' b
     \<and> (b \<noteq> [] \<longrightarrow> decimal_digit (last b))
     \<and> (p \<or> (b \<noteq> [] \<and> decimal_digit (hd b)))"
proof (induction b arbitrary: acc p)
  case Nil
  then show ?case by simp
next
  case (Cons c cs)
  show ?case
  proof (cases "c = CHR ''_''")
    case True
    then show ?thesis
      using Cons.IH [of acc False] underscore_no_digit
      by (cases cs) (auto simp add: sublist_Cons_right)
  next
    case False
    show ?thesis
    proof (cases "digit_value c")
      case None
      then have "\<not> decimal_digit c"
        using digit_value_None_iff [of c] by simp
      then show ?thesis
        using False None by simp
    next
      case (Some d)
      then have "decimal_digit c"
        using digit_value_None_iff [of c] by simp
      then show ?thesis
        using False Some Cons.IH [of "acc * 10 + d" True]
        by (cases cs) (auto simp add: sublist_Cons_right)
    qed
  qed
qed

lemma parse_digits_None_iff:
  "parse_digits w b = None \<longleftrightarrow> scan_digits 0 False b = None \<or> over_digit_limit w b"
  by (simp add: parse_digits_def split: option.split)

text \<open>
  \<open>py_int\<close> refuses a string exactly when it is not a valid decimal integer or when its
  literal has more digits than the runtime allows.
\<close>

lemma py_int_None_iff:
  "py_int w s = None \<longleftrightarrow>
     \<not> valid_decimal_integer w s
     \<or> (\<exists>a. ascii_text w s = Some a \<and> over_digit_limit w (literal_body a))"
proof (cases "ascii_text w s")
  case None
  then show ?thesis
    by (simp add: py_int_def valid_decimal_integer_def)
next
  case (Some a)
  show ?thesis
  proof (cases "py_strip a")
    case Nil
    then show ?thesis
      using Some by (simp add: py_int_def valid_decimal_integer_def literal_body_def)
  next
    case (Cons c cs)
    show ?thesis
    proof (cases "c = CHR ''-'' \<or> c = CHR ''+''")
      case True
      then have b: "literal_body a = cs"
        using Cons by (auto simp add: literal_body_def)
      have "py_int w s = None \<longleftrightarrow> parse_digits w cs = None"
        using Some Cons True by (auto simp add: py_int_def)
      then show ?thesis
        using Some b scan_digits_Some_iff [of 0 False cs]
        by (auto simp add: valid_decimal_integer_def parse_digits_None_iff)
    next
      case False
      then have b: "literal_body a = c # cs"
        using Cons by (simp add: literal_body_def)
      have "py_int w s = None \<longleftrightarrow> parse_digits w (c # cs) = None"
        using Some Cons False by (simp add: py_int_def)
      then show ?thesis
        using Some b scan_digits_Some_iff [of 0 False "c # cs"]
        by (auto simp add: valid_decimal_integer_def parse_digits_None_iff)
    qed
  qed
qed

lemma invalid_py_int: "\<not> valid_decimal_integer w s \<Longrightarrow> py_int w s = None"
  by (simp add: py_int_None_iff)

lemma py_int_fullwidth:
  "py_int quiet_world
     [CHR 0xC2, CHR 0xA0, CHR 0xEF, CHR 0xBC, CHR 0x98, CHR 0xEF, CHR 0xBC, CHR 0x90,
      CHR 0xEF, CHR 0xBC, CHR 0x99, CHR 0xEF, CHR 0xBC, CHR 0x90] = Some 8090"
  by (simp add: py_int_def ascii_text_def is_ascii_def quiet_world_def parse_digits_def
      over_digit_limit_def py_strip_def py_isspace_def digit_value_def)

text \<open>
  The limit on digits: a literal of 4301 ones is a valid decimal integer, and the runtime
  with the default limit refuses it, while a runtime without limit reads it.
\<close>

lemma replicate_digit_literal:
  assumes "decimal_digit c" and "0 < n"
  shows "ascii_text w (replicate n c) = Some (replicate n c)"
    and "literal_body (replicate n c) = replicate n c"
    and "valid_decimal_integer w (replicate n c)"
proof -
  have c: "(of_char c :: nat) < 128" "\<not> py_isspace c" "c \<noteq> CHR ''-''" "c \<noteq> CHR ''+''"
    "c \<noteq> CHR ''_''"
    using assms(1) by (auto simp add: decimal_digit_def py_isspace_def)
  show a: "ascii_text w (replicate n c) = Some (replicate n c)"
    using c(1) by (simp add: ascii_text_def is_ascii_def list_all_iff)
  have "dropWhile py_isspace (replicate n c) = replicate n c"
    using c(2) by (cases n) simp_all
  then have "py_strip (replicate n c) = replicate n c"
    by (simp add: py_strip_def)
  then show b: "literal_body (replicate n c) = replicate n c"
    using c(3,4) assms(2) by (cases n) (simp_all add: literal_body_def)
  have "\<not> sublist ''__'' (replicate n c)"
  proof
    assume "sublist ''__'' (replicate n c)"
    then have "set ''__'' \<subseteq> set (replicate n c)"
      by (rule set_mono_sublist)
    then show False
      using c(5) by (auto split: if_splits)
  qed
  then show "valid_decimal_integer w (replicate n c)"
    using a b assms by (cases n) (auto simp add: valid_decimal_integer_def list_all_iff Let_def)
qed

lemma py_int_over_limit: "py_int quiet_world (replicate 4301 CHR ''1'') = None"
proof -
  have d: "decimal_digit CHR ''1''"
    by (simp add: decimal_digit_def)
  have "over_digit_limit quiet_world (replicate 4301 CHR ''1'')"
    by (simp add: over_digit_limit_def quiet_world_def)
  then show ?thesis
    using replicate_digit_literal(1) [OF d, of 4301 quiet_world]
      replicate_digit_literal(2) [OF d, of 4301]
    by (simp add: py_int_None_iff)
qed

lemma py_int_no_limit:
  "py_int (quiet_world \<lparr> int_max_str_digits := 0 \<rparr>) (replicate 4301 CHR ''1'') \<noteq> None"
proof -
  have d: "decimal_digit CHR ''1''"
    by (simp add: decimal_digit_def)
  have "\<not> over_digit_limit (quiet_world \<lparr> int_max_str_digits := 0 \<rparr>) b" for b
    by (simp add: over_digit_limit_def Let_def)
  then show ?thesis
    using replicate_digit_literal(3) [OF d, of 4301 "quiet_world \<lparr> int_max_str_digits := 0 \<rparr>"]
    by (simp add: py_int_None_iff)
qed

subsection \<open>The runs of the process\<close>

lemma body_distinct: "distinct (fst (module_body g w))"
  by (simp add: run_unfold split: option.split)

lemma body_running_iff:
  "snd (module_body g w) = Running \<longleftrightarrow>
     Bot_init w (BOT_TOKEN g) = None \<and>
     (\<forall>url. WEBHOOK_URL g = Some url \<and> url \<noteq> [] \<longrightarrow> set_webhook w url True = None) \<and>
     runner_setup w = None \<and> site_start w ''0.0.0.0'' (BOT_PORT g) = None \<and>
     future_wait w = None"
  by (simp add: run_unfold split: option.split)

lemma body_webhook_event:
  "Set_webhook u d \<in> set (fst (module_body g w)) \<Longrightarrow>
   WEBHOOK_URL g = Some u \<and> u \<noteq> [] \<and> d = True"
  by (simp add: run_unfold split: option.split_asm if_split_asm)

lemma body_webhook_raises:
  "Set_webhook u d \<in> set (fst (module_body g w)) \<Longrightarrow> set_webhook w u d = Some x \<Longrightarrow>
   module_body g w =
     ([Logging_basicConfig, Bot_new (BOT_TOKEN g), Dispatcher_new, Register_message_handler,
       Log_info (Starting_bot (BOT_NAME g)), Application_new, Add_get ''/health'' Health_check,
       Request_handler_new, Register_webhook_route ''/webhook'', Setup_application,
       Set_webhook u d], Uncaught x)"
  by (simp add: run_unfold split: option.split_asm if_split_asm)

lemma body_bot_raises:
  "Bot_init w (BOT_TOKEN g) = Some x \<Longrightarrow>
   module_body g w = ([Logging_basicConfig, Bot_new (BOT_TOKEN g)], Uncaught x)"
  by (simp add: run_unfold)

lemma body_order:
  "WEBHOOK_URL g = Some url \<Longrightarrow> url \<noteq> [] \<Longrightarrow>
   Site_start h p \<in> set (fst (module_body g w)) \<Longrightarrow>
   precedes (Set_webhook url True) (Site_start h p) (fst (module_body g w)) \<and>
   \<not> precedes (Site_start h p) (Set_webhook url True) (fst (module_body g w))"
  by (simp add: run_unfold split: option.split option.split_asm)

lemma body_routes:
  "snd (module_body g w) = Running \<Longrightarrow>
   routes_of (fst (module_body g w)) =
     [\<lparr> route_method = ''HEAD'', route_path = ''/health'', route_handler = Health_check \<rparr>,
      \<lparr> route_method = ''GET'', route_path = ''/health'', route_handler = Health_check \<rparr>,
      \<lparr> route_method = ''POST'', route_path = ''/webhook'', route_handler = Webhook_handler \<rparr>]"
  by (simp add: run_unfold routes_of_def split: option.split_asm if_split_asm)

lemma program_running:
  "snd (program env w) = Running \<Longrightarrow>
   \<exists>g. read_config w env = Inr g \<and> program env w = module_body g w"
  by (cases "read_config w env") (simp_all add: program_def)

lemma program_trace:
  "ev \<in> set (fst (program env w)) \<Longrightarrow>
   \<exists>g. read_config w env = Inr g \<and> program env w = module_body g w"
  by (cases "read_config w env") (simp_all add: program_def)

lemma run_example_quiet:
  "program example_env quiet_world =
     ([Logging_basicConfig, Bot_new (Some ''123456:abcdef''), Dispatcher_new,
       Register_message_handler, Log_info (Starting_bot ''bot''), Application_new,
       Add_get ''/health'' Health_check, Request_handler_new,
       Register_webhook_route ''/webhook'', Setup_application,
       Set_webhook ''https://example.org/webhook'' True,
       Log_info (Webhook_set_to ''https://example.org/webhook''), Runner_setup,
       Site_start ''0.0.0.0'' 8080, Log_info (Bot_started ''bot'' 8080), Wait_forever],
      Running)"
  by (simp add: program_def read_example_env run_unfold example_config_def quiet_world_def)

lemma run_example_refusing:
  "program example_env refusing_world =
     ([Logging_basicConfig, Bot_new (Some ''123456:abcdef''), Dispatcher_new,
       Register_message_handler, Log_info (Starting_bot ''bot''), Application_new,
       Add_get ''/health'' Health_check, Request_handler_new,
       Register_webhook_route ''/webhook'', Setup_application,
       Set_webhook ''https://example.org/webhook'' True],
      Uncaught (Raised ''TelegramUnauthorizedError''))"
  by (simp add: program_def read_example_env run_unfold example_config_def refusing_world_def
      quiet_world_def)

lemma run_example_interrupted:
  "program example_env interrupted_world =
     ([Logging_basicConfig, Bot_new (Some ''123456:abcdef''), Dispatcher_new,
       Register_message_handler, Log_info (Starting_bot ''bot''), Application_new,
       Add_get ''/health'' Health_check, Request_handler_new,
       Register_webhook_route ''/webhook'', Setup_application,
       Set_webhook ''https://example.org/webhook'' True,
       Log_info (Webhook_set_to ''https://example.org/webhook''), Runner_setup,
       Site_start ''0.0.0.0'' 8080, Log_info (Bot_started ''bot'' 8080), Wait_forever,
       Session_close],
      Uncaught (Raised ''CancelledError''))"
  by (simp add: program_def read_example_env run_unfold example_config_def interrupted_world_def
      quiet_world_def)

lemma run_example_busy_port:
  "program example_env busy_port_world =
     ([Logging_basicConfig, Bot_new (Some ''123456:abcdef''), Dispatcher_new,
       Register_message_handler, Log_info (Starting_bot ''bot''), Application_new,
       Add_get ''/health'' Health_check, Request_handler_new,
       Register_webhook_route ''/webhook'', Setup_application,
       Set_webhook ''https://example.org/webhook'' True,
       Log_info (Webhook_set_to ''https://example.org/webhook''), Runner_setup,
       Site_start ''0.0.0.0'' 8080],
      Uncaught (Raised ''OSError''))"
  by (simp add: program_def read_example_env run_unfold example_config_def busy_port_world_def
      quiet_world_def)

text \<open>
  A port written in fullwidth digits after a no-break space is read as Python reads it: the
  process binds port 8090.
\<close>

lemma run_fullwidth_port:
  "program fullwidth_port_env quiet_world =
     ([Logging_basicConfig, Bot_new (Some ''123456:abcdef''), Dispatcher_new,
       Register_message_handler, Log_info (Starting_bot ''bot''), Application_new,
       Add_get ''/health'' Health_check, Request_handler_new,
       Register_webhook_route ''/webhook'', Setup_application, Runner_setup,
       Site_start ''0.0.0.0'' 8090, Log_info (Bot_started ''bot'' 8090), Wait_forever],
      Running)"
proof -
  have "read_config quiet_world fullwidth_port_env =
      Inr \<lparr> BOT_TOKEN = Some ''123456:abcdef'', BOT_PORT = 8090, WEBHOOK_URL = None,
            BOT_NAME = ''bot'' \<rparr>"
    by (simp add: read_config_def fullwidth_port_env_def getenv_def getenv_default_def
        py_int_fullwidth)
  then show ?thesis
    by (simp add: program_def run_unfold quiet_world_def)
qed

lemma run_tokenless_quiet:
  "program tokenless_env quiet_world =
     ([Logging_basicConfig, Bot_new None], Uncaught (Raised ''TokenValidationError''))"
  by (simp add: program_def read_tokenless_env run_unfold quiet_world_def)

subsection \<open>The echo handler\<close>

lemma reply_text_greeting: "reply_text g m = greeting (BOT_NAME g) @ py_format (msg_text m)"
  by (simp add: reply_text_def greeting_def)

lemma name_in_greeting: "sublist n (greeting n)"
proof -
  have "greeting n = (robot @ '' Hello 111 from '') @ n @ ''! You said: ''"
    by (simp add: greeting_def)
  then show ?thesis
    by (metis sublist_appendI)
qed

text \<open>
  Claim C1. For a message with a non-empty text \<open>T\<close> and the configured bot name \<open>N\<close>, the
  handler sends one reply whose text is the greeting template for \<open>N\<close> followed by \<open>T\<close>
  itself; \<open>N\<close> occurs in the template, and both \<open>N\<close> and \<open>T\<close> occur in the reply as
  contiguous pieces.
\<close>

theorem echo_reply_greeting_and_text:
  assumes "T \<noteq> []" and "msg_text m = Some T" and "BOT_NAME g = N"
  shows "map outbound_text (sent (echo_handler w g m)) = [greeting N @ T]
       \<and> reply_text g m = greeting N @ T
       \<and> sublist N (greeting N)
       \<and> sublist N (reply_text g m)
       \<and> sublist T (reply_text g m)"
proof -
  have r: "reply_text g m = greeting N @ T"
    using assms by (simp add: reply_text_greeting py_format_def)
  have n: "sublist N (greeting N)"
    by (rule name_in_greeting)
  have "sublist N (greeting N @ T)"
    using n by (metis sublist_order.order.trans sublist_append_rightI)
  moreover have "sublist T (greeting N @ T)"
    by simp
  moreover have "map outbound_text (sent (echo_handler w g m)) = [reply_text g m]"
    by (simp add: echo_handler_def Let_def)
  ultimately show ?thesis
    using r n by simp
qed

theorem echo_reply_greeting_and_text_witness:
  "msg_text hello_message = Some ''hello'' \<and> BOT_NAME example_config = ''bot''
   \<and> map outbound_text (sent (echo_handler quiet_world example_config hello_message))
       = [greeting ''bot'' @ ''hello'']
   \<and> sublist ''bot'' (reply_text example_config hello_message)
   \<and> sublist ''hello'' (reply_text example_config hello_message)"
proof -
  have t: "msg_text hello_message = Some ''hello''"
    by (simp add: hello_message_def)
  have n: "BOT_NAME example_config = ''bot''"
    by (simp add: example_config_def)
  have "''hello'' \<noteq> []"
    by simp
  from echo_reply_greeting_and_text [OF this t n, of quiet_world] t n show ?thesis
    by blast
qed

text \<open>
  Claim C2, as stated: when the text of the message is absent, the echoed portion of the
  reply is the empty string. It is not: the f-string writes \<^verbatim>\<open>None\<close> for an absent text.
\<close>

theorem echo_absent_text_not_empty:
  "msg_text photo_message = None
   \<and> reply_text example_config photo_message = greeting ''bot'' @ ''None''
   \<and> reply_text example_config photo_message \<noteq> greeting ''bot'' @ ''''"
  by (simp add: reply_text_greeting py_format_def photo_message_def example_config_def)

text \<open>
  Claim C2, amended. For every message, composing the reply does not fail and the handler
  sends exactly one reply; it fails only when that send call does. When the text is empty the
  echoed portion is the empty string, and when the text is absent the echoed portion is the
  word \<^verbatim>\<open>None\<close>.
\<close>

theorem echo_absent_or_empty_text:
  "(msg_text m = Some [] \<longrightarrow> reply_text g m = greeting (BOT_NAME g) @ [])
   \<and> (msg_text m = None \<longrightarrow> reply_text g m = greeting (BOT_NAME g) @ ''None'')
   \<and> sent (echo_handler w g m) = [SendMessage (chat_id m) (reply_text g m)]
   \<and> (message_answer w (SendMessage (chat_id m) (reply_text g m)) = None
        \<longrightarrow> returned (echo_handler w g m) = Inr ())"
  by (simp add: reply_text_greeting py_format_def echo_handler_def Let_def)

theorem echo_absent_or_empty_text_witness:
  "msg_text empty_message = Some [] \<and> msg_text photo_message = None
   \<and> reply_text example_config empty_message = greeting ''bot''
   \<and> reply_text example_config photo_message = greeting ''bot'' @ ''None''
   \<and> returned (echo_handler quiet_world example_config photo_message) = Inr ()
   \<and> returned (echo_handler quiet_world example_config empty_message) = Inr ()"
  using echo_absent_or_empty_text [of empty_message example_config quiet_world]
    echo_absent_or_empty_text [of photo_message example_config quiet_world]
  by (simp add: empty_message_def photo_message_def example_config_def quiet_world_def)

text \<open>
  Claim C8. For every message given to the echo handler, the handler makes exactly one send
  call, to the chat of that message and with the reply composed from that message; this holds
  whether or not the send call raises.
\<close>

theorem echo_sends_exactly_once:
  "length (sent (echo_handler w g m)) = 1
   \<and> sent (echo_handler w g m) = [SendMessage (chat_id m) (reply_text g m)]"
  by (simp add: echo_handler_def Let_def)

text \<open>
  Claim C9. The text the handler sends is a function of the bot name and the text of the
  message alone: two invocations that agree on these two send the same text, whatever the
  rest of the globals, the rest of the message and the world are; and each invocation leaves
  the module's globals as it found them.
\<close>

theorem echo_depends_only_on_name_and_text:
  assumes "BOT_NAME g1 = BOT_NAME g2" and "msg_text m1 = msg_text m2"
  shows "map outbound_text (sent (echo_handler w1 g1 m1))
           = map outbound_text (sent (echo_handler w2 g2 m2))
       \<and> globals_after (echo_handler w1 g1 m1) = g1
       \<and> globals_after (echo_handler w2 g2 m2) = g2"
  using assms by (simp add: echo_handler_def Let_def reply_text_def)

theorem echo_depends_only_on_name_and_text_witness:
  "BOT_NAME example_config = BOT_NAME other_config
   \<and> msg_text hello_message = msg_text other_hello_message
   \<and> example_config \<noteq> other_config \<and> hello_message \<noteq> other_hello_message
   \<and> map outbound_text (sent (echo_handler quiet_world example_config hello_message))
       = map outbound_text (sent (echo_handler refusing_world other_config other_hello_message))
   \<and> globals_after (echo_handler quiet_world example_config hello_message) = example_config"
proof -
  have n: "BOT_NAME example_config = BOT_NAME other_config"
    by (simp add: example_config_def other_config_def)
  have t: "msg_text hello_message = msg_text other_hello_message"
    by (simp add: hello_message_def other_hello_message_def)
  have d: "example_config \<noteq> other_config \<and> hello_message \<noteq> other_hello_message"
    by (simp add: example_config_def other_config_def hello_message_def other_hello_message_def)
  from echo_depends_only_on_name_and_text [OF n t, of quiet_world refusing_world] n t d
  show ?thesis by simp
qed

subsection \<open>The health check\<close>

text \<open>
  Claim C3. For every request, whatever the globals and the world are, \<open>health_check\<close>
  returns a response with status 200 and body \<^verbatim>\<open>OK\<close>, sends nothing to the platform and
  leaves the globals as they were; and in every run of the process that reaches the wait of
  line 61, a request with method \<^verbatim>\<open>GET\<close> and path \<^verbatim>\<open>/health\<close> is answered by that handler.
\<close>

theorem health_check_ok:
  "health_check w g rq =
     \<lparr> returned = Inr \<lparr> status = 200, body = ''OK'' \<rparr>, globals_after = g, sent = [] \<rparr>
   \<and> (snd (program env w0) = Running \<and> req_method rq = ''GET'' \<and> req_path rq = ''/health''
        \<longrightarrow> serve w g (fst (program env w0)) rq = Some (health_check w g rq))"
proof -
  have "serve w g (fst (program env w0)) rq = Some (health_check w g rq)"
    if run: "snd (program env w0) = Running"
      and rq: "req_method rq = ''GET''" "req_path rq = ''/health''"
  proof -
    from run obtain g0 where p: "program env w0 = module_body g0 w0"
      using program_running by blast
    with run have "snd (module_body g0 w0) = Running"
      by simp
    then show ?thesis
      using rq by (simp add: p serve_def body_routes)
  qed
  then show ?thesis
    by (simp add: health_check_def web_Response_def)
qed

theorem health_check_ok_witness:
  "snd (program example_env quiet_world) = Running
   \<and> req_method health_request = ''GET'' \<and> req_path health_request = ''/health''
   \<and> serve refusing_world other_config (fst (program example_env quiet_world)) health_request
       = Some \<lparr> returned = Inr \<lparr> status = 200, body = ''OK'' \<rparr>,
                globals_after = other_config, sent = [] \<rparr>"
proof -
  have r: "snd (program example_env quiet_world) = Running"
    by (simp add: run_example_quiet)
  have q: "req_method health_request = ''GET'' \<and> req_path health_request = ''/health''"
    by (simp add: health_request_def)
  from health_check_ok [of refusing_world other_config health_request example_env quiet_world]
    r q show ?thesis
    by simp
qed

subsection \<open>Startup\<close>

text \<open>
  Claim C4, as stated: with a webhook URL configured, the port is bound before the URL is
  registered. In the run of \<open>example_env\<close> both calls are made, and the bind does not come
  before the registration.
\<close>

theorem bind_not_before_registration:
  "Set_webhook ''https://example.org/webhook'' True \<in> set (fst (program example_env quiet_world))
   \<and> Site_start ''0.0.0.0'' 8080 \<in> set (fst (program example_env quiet_world))
   \<and> \<not> precedes (Site_start ''0.0.0.0'' 8080) (Set_webhook ''https://example.org/webhook'' True)
         (fst (program example_env quiet_world))"
  by (simp add: run_example_quiet)

text \<open>
  Claim C4, amended. During startup, when a non-empty webhook URL is configured, the process
  first registers that URL with the platform, passing \<^verbatim>\<open>drop_pending_updates=True\<close>, and only
  afterwards binds to its port: in every run where the bind is made, the registration of the
  configured URL comes before it and not after it, and every registration call of the run is
  for the configured URL with the flag set.
\<close>

theorem registration_before_bind:
  assumes "env ''WEBHOOK_URL'' = Some url" and "url \<noteq> []"
    and "Site_start h p \<in> set (fst (program env w))"
  shows "precedes (Set_webhook url True) (Site_start h p) (fst (program env w))
       \<and> \<not> precedes (Site_start h p) (Set_webhook url True) (fst (program env w))
       \<and> (\<forall>u d. Set_webhook u d \<in> set (fst (program env w)) \<longrightarrow> u = url \<and> d = True)"
proof -
  from assms(3) obtain g where g: "read_config w env = Inr g" and p: "program env w = module_body g w"
    using program_trace by blast
  have u: "WEBHOOK_URL g = Some url"
    using read_config_fields(2) [OF g] assms(1) by simp
  have "precedes (Set_webhook url True) (Site_start h p) (fst (module_body g w))
      \<and> \<not> precedes (Site_start h p) (Set_webhook url True) (fst (module_body g w))"
    using body_order [OF u assms(2)] assms(3) p by simp
  moreover have "u' = url \<and> d = True" if "Set_webhook u' d \<in> set (fst (module_body g w))" for u' d
    using body_webhook_event [OF that] u by simp
  ultimately show ?thesis
    unfolding p by blast
qed

theorem registration_before_bind_witness:
  "example_env ''WEBHOOK_URL'' = Some ''https://example.org/webhook''
   \<and> Site_start ''0.0.0.0'' 8080 \<in> set (fst (program example_env quiet_world))
   \<and> precedes (Set_webhook ''https://example.org/webhook'' True) (Site_start ''0.0.0.0'' 8080)
       (fst (program example_env quiet_world))"
proof -
  have u: "example_env ''WEBHOOK_URL'' = Some ''https://example.org/webhook''"
    by (simp add: example_env_def)
  have n: "''https://example.org/webhook'' \<noteq> []"
    by simp
  have s: "Site_start ''0.0.0.0'' 8080 \<in> set (fst (program example_env quiet_world))"
    by (simp add: run_example_quiet)
  from registration_before_bind
      [of example_env "''https://example.org/webhook''" "''0.0.0.0''" 8080 quiet_world] u n s
  show ?thesis
    by blast
qed

text \<open>
  Claim C5. When \<^verbatim>\<open>WEBHOOK_URL\<close> is unset, no run of the process makes a webhook
  registration call; the process reaches the wait of line 61 exactly when the configuration
  is read, the client is built, and the runner setup, the bind and the wait do not raise; and
  then it has bound \<^verbatim>\<open>0.0.0.0\<close> at the configured port and answers \<^verbatim>\<open>GET /health\<close> with
  status 200 and body \<^verbatim>\<open>OK\<close>.
\<close>

theorem no_webhook_url_no_registration:
  assumes "env ''WEBHOOK_URL'' = None"
  shows "(\<forall>u d. Set_webhook u d \<notin> set (fst (program env w)))
       \<and> (snd (program env w) = Running \<longleftrightarrow>
            (\<exists>g. read_config w env = Inr g \<and> Bot_init w (BOT_TOKEN g) = None
                 \<and> runner_setup w = None \<and> site_start w ''0.0.0.0'' (BOT_PORT g) = None
                 \<and> future_wait w = None))
       \<and> (\<forall>g. read_config w env = Inr g \<and> snd (program env w) = Running \<longrightarrow>
            Site_start ''0.0.0.0'' (BOT_PORT g) \<in> set (fst (program env w))
            \<and> (\<forall>w' g' rq. req_method rq = ''GET'' \<and> req_path rq = ''/health'' \<longrightarrow>
                  serve w' g' (fst (program env w)) rq
                    = Some \<lparr> returned = Inr \<lparr> status = 200, body = ''OK'' \<rparr>,
                             globals_after = g', sent = [] \<rparr>))"
proof (cases "read_config w env")
  case (Inl e)
  then show ?thesis
    by (simp add: program_def)
next
  case (Inr g)
  then have p: "program env w = module_body g w"
    by (simp add: program_def)
  have u: "WEBHOOK_URL g = None"
    using read_config_fields(2) [OF Inr] assms by simp
  have a: "Set_webhook u' d \<notin> set (fst (module_body g w))" for u' d
    using body_webhook_event [of u' d g w] u by auto
  have b: "snd (module_body g w) = Running \<longleftrightarrow>
      Bot_init w (BOT_TOKEN g) = None \<and> runner_setup w = None
      \<and> site_start w ''0.0.0.0'' (BOT_PORT g) = None \<and> future_wait w = None"
    by (simp add: body_running_iff u)
  have c: "Site_start ''0.0.0.0'' (BOT_PORT g) \<in> set (fst (module_body g w))"
    if "snd (module_body g w) = Running"
    using that by (simp add: run_unfold u split: option.split_asm)
  have d: "serve w' g' (fst (module_body g w)) rq
      = Some \<lparr> returned = Inr \<lparr> status = 200, body = ''OK'' \<rparr>, globals_after = g', sent = [] \<rparr>"
    if "snd (module_body g w) = Running" "req_method rq = ''GET''" "req_path rq = ''/health''"
    for w' g' rq
    using that by (simp add: serve_def body_routes health_check_def web_Response_def)
  show ?thesis
    using a b c d by (simp add: p Inr)
qed

theorem no_webhook_url_no_registration_witness:
  "tokenless_env ''WEBHOOK_URL'' = None
   \<and> (\<forall>u d. Set_webhook u d \<notin> set (fst (program tokenless_env quiet_world)))
   \<and> snd (program tokenless_env (quiet_world \<lparr> Bot_init := (\<lambda>t. None) \<rparr>)) = Running
   \<and> Site_start ''0.0.0.0'' 8080
       \<in> set (fst (program tokenless_env (quiet_world \<lparr> Bot_init := (\<lambda>t. None) \<rparr>)))"
proof -
  have u: "tokenless_env ''WEBHOOK_URL'' = None"
    by (simp add: tokenless_env_def)
  have r: "snd (program tokenless_env (quiet_world \<lparr> Bot_init := (\<lambda>t. None) \<rparr>)) = Running"
    by (simp add: program_def read_tokenless_env body_running_iff quiet_world_def)
  from no_webhook_url_no_registration [of tokenless_env quiet_world]
    no_webhook_url_no_registration [of tokenless_env "quiet_world \<lparr> Bot_init := (\<lambda>t. None) \<rparr>"]
    u r read_tokenless_env
  show ?thesis
    by simp
qed

text \<open>
  Claim C6. When \<^verbatim>\<open>BOT_TOKEN\<close> is absent and the client's constructor refuses an absent
  token, or when a webhook registration call is made and raises, the process ends with an
  uncaught exception, hence with a non-zero exit status; it has then called neither the
  runner setup nor the bind and never reaches the wait of line 61, and no call of the run is
  made twice.
\<close>

theorem startup_failure_exits_nonzero:
  assumes "(env ''BOT_TOKEN'' = None \<and> Bot_init w None \<noteq> None)
         \<or> (\<exists>u d. Set_webhook u d \<in> set (fst (program env w)) \<and> set_webhook w u d \<noteq> None)"
  shows "(\<exists>e. snd (program env w) = Uncaught e)
       \<and> (\<exists>s. exit_status (snd (program env w)) = Some s \<and> s \<noteq> 0)
       \<and> Runner_setup \<notin> set (fst (program env w))
       \<and> (\<forall>h p. Site_start h p \<notin> set (fst (program env w)))
       \<and> Wait_forever \<notin> set (fst (program env w))
       \<and> distinct (fst (program env w))"
proof -
  have "\<exists>e tr. program env w = (tr, Uncaught e) \<and> Runner_setup \<notin> set tr
      \<and> (\<forall>h p. Site_start h p \<notin> set tr) \<and> Wait_forever \<notin> set tr \<and> distinct tr"
    using assms
  proof
    assume a: "env ''BOT_TOKEN'' = None \<and> Bot_init w None \<noteq> None"
    then obtain x where x: "Bot_init w None = Some x"
      by auto
    show ?thesis
    proof (cases "read_config w env")
      case (Inl e)
      then show ?thesis
        by (simp add: program_def)
    next
      case (Inr g)
      then have "BOT_TOKEN g = None"
        using read_config_fields(1) [OF Inr] a by simp
      then have "module_body g w = ([Logging_basicConfig, Bot_new None], Uncaught x)"
        using body_bot_raises [of w g x] x by simp
      then show ?thesis
        using Inr by (simp add: program_def)
    qed
  next
    assume "\<exists>u d. Set_webhook u d \<in> set (fst (program env w)) \<and> set_webhook w u d \<noteq> None"
    then obtain u d x where e: "Set_webhook u d \<in> set (fst (program env w))"
      and x: "set_webhook w u d = Some x"
      by auto
    from e obtain g where p: "program env w = module_body g w"
      using program_trace by blast
    from e have "Set_webhook u d \<in> set (fst (module_body g w))"
      by (simp add: p)
    from body_webhook_raises [OF this x] show ?thesis
      using body_webhook_event [OF \<open>Set_webhook u d \<in> set (fst (module_body g w))\<close>]
      by (simp add: p)
  qed
  then show ?thesis
    by auto
qed

theorem startup_failure_exits_nonzero_witness:
  "tokenless_env ''BOT_TOKEN'' = None \<and> Bot_init quiet_world None \<noteq> None
   \<and> Set_webhook ''https://example.org/webhook'' True
       \<in> set (fst (program example_env refusing_world))
   \<and> set_webhook refusing_world ''https://example.org/webhook'' True \<noteq> None
   \<and> exit_status (snd (program tokenless_env quiet_world)) = Some 1
   \<and> exit_status (snd (program example_env refusing_world)) = Some 1
   \<and> (\<forall>h p. Site_start h p \<notin> set (fst (program tokenless_env quiet_world)))
   \<and> (\<forall>h p. Site_start h p \<notin> set (fst (program example_env refusing_world)))"
proof -
  have a: "tokenless_env ''BOT_TOKEN'' = None \<and> Bot_init quiet_world None \<noteq> None"
    by (simp add: tokenless_env_def quiet_world_def)
  have b1: "Set_webhook ''https://example.org/webhook'' True
        \<in> set (fst (program example_env refusing_world))"
    by (simp add: run_example_refusing)
  have b2: "set_webhook refusing_world ''https://example.org/webhook'' True \<noteq> None"
    by (simp add: refusing_world_def)
  note b = b1 b2
  have c: "exit_status (snd (program tokenless_env quiet_world)) = Some 1
      \<and> exit_status (snd (program example_env refusing_world)) = Some 1"
    by (simp add: run_tokenless_quiet run_example_refusing)
  from startup_failure_exits_nonzero [of tokenless_env quiet_world]
    startup_failure_exits_nonzero [of example_env refusing_world] a b c
  show ?thesis
    by blast
qed

text \<open>
  Claim C7, evaluated where it fails. With a webhook URL configured and the platform
  refusing the registration, or the port taken, the client has been built and the process
  ends without a call that closes its session; the session is closed only on the path where
  the wait of line 61 is interrupted.
\<close>

theorem session_left_open_on_startup_failure:
  "Bot_new (Some ''123456:abcdef'') \<in> set (fst (program example_env refusing_world))
   \<and> snd (program example_env refusing_world) = Uncaught (Raised ''TelegramUnauthorizedError'')
   \<and> Session_close \<notin> set (fst (program example_env refusing_world))
   \<and> Set_webhook ''https://example.org/webhook'' True
       \<in> set (fst (program example_env busy_port_world))
   \<and> snd (program example_env busy_port_world) = Uncaught (Raised ''OSError'')
   \<and> Session_close \<notin> set (fst (program example_env busy_port_world))
   \<and> Session_close \<in> set (fst (program example_env interrupted_world))"
  by (simp add: run_example_refusing run_example_busy_port run_example_interrupted)

subsection \<open>The configuration\<close>

text \<open>
  Claim C10. When \<^verbatim>\<open>BOT_PORT\<close> is set to a string that is not a valid decimal integer, the
  process ends with \<^verbatim>\<open>ValueError\<close> before any call is made: the client is not built and
  nothing is bound. When \<^verbatim>\<open>BOT_PORT\<close> is unset the configuration is read and the port is
  8080, and when \<^verbatim>\<open>BOT_NAME\<close> is unset the name read is \<^verbatim>\<open>bot\<close>. This holds for every
  string and every runtime: whatever Unicode's blanks and digits are read as, and whatever
  the limit on digits is.
\<close>

theorem invalid_port_fails_at_load:
  "(env ''BOT_PORT'' = Some v \<and> \<not> valid_decimal_integer w v \<longrightarrow>
      program env w = ([], Uncaught ValueError)
      \<and> (\<forall>t. Bot_new t \<notin> set (fst (program env w)))
      \<and> (\<forall>h p. Site_start h p \<notin> set (fst (program env w))))
   \<and> (env ''BOT_PORT'' = None \<longrightarrow> (\<exists>g. read_config w env = Inr g \<and> BOT_PORT g = 8080))
   \<and> (env ''BOT_NAME'' = None \<and> read_config w env = Inr g \<longrightarrow> BOT_NAME g = ''bot'')"
proof -
  have "program env w = ([], Uncaught ValueError)"
    if "env ''BOT_PORT'' = Some v" "\<not> valid_decimal_integer w v"
  proof -
    from that(2) have "py_int w v = None"
      by (rule invalid_py_int)
    then show ?thesis
      using that(1) by (simp add: program_def read_config_def getenv_default_def)
  qed
  moreover have "\<exists>g. read_config w env = Inr g \<and> BOT_PORT g = 8080" if "env ''BOT_PORT'' = None"
    using that by (simp add: read_config_def getenv_default_def py_int_8080)
  moreover have "BOT_NAME g = ''bot''" if "env ''BOT_NAME'' = None" "read_config w env = Inr g"
    using read_config_fields(3) [OF that(2)] that(1) by simp
  ultimately show ?thesis
    by auto
qed

theorem invalid_port_fails_at_load_witness:
  "bad_port_env ''BOT_PORT'' = Some ''80a'' \<and> \<not> valid_decimal_integer quiet_world ''80a''
   \<and> program bad_port_env quiet_world = ([], Uncaught ValueError)
   \<and> tokenless_env ''BOT_PORT'' = None \<and> example_env ''BOT_NAME'' = None
   \<and> read_config quiet_world example_env = Inr example_config
   \<and> BOT_NAME example_config = ''bot''
   \<and> (\<exists>g. read_config quiet_world tokenless_env = Inr g \<and> BOT_PORT g = 8080)"
proof -
  have a: "bad_port_env ''BOT_PORT'' = Some ''80a''"
    by (simp add: bad_port_env_def)
  have b: "\<not> valid_decimal_integer quiet_world ''80a''"
    by (simp add: valid_decimal_integer_def ascii_text_def is_ascii_def literal_body_def
        py_strip_def py_isspace_def decimal_digit_def)
  have c: "tokenless_env ''BOT_PORT'' = None \<and> example_env ''BOT_NAME'' = None"
    by (simp add: tokenless_env_def example_env_def)
  have r: "read_config quiet_world example_env = Inr example_config"
    by (rule read_example_env)
  have d: "program bad_port_env quiet_world = ([], Uncaught ValueError)"
    using invalid_port_fails_at_load [of bad_port_env "''80a''" quiet_world example_config] a b
    by simp
  have e: "\<exists>g. read_config quiet_world tokenless_env = Inr g \<and> BOT_PORT g = 8080"
    using invalid_port_fails_at_load [of tokenless_env "''80a''" quiet_world example_config] c
    by simp
  have f: "BOT_NAME example_config = ''bot''"
    using invalid_port_fails_at_load [of example_env "''80a''" quiet_world example_config] c r
    by simp
  show ?thesis
    using a b c d e f r by simp
qed

end
